theory Spec2Isabelle
  imports
    Main
    "HOL-Library.Char_ord"
    "HOL-Library.List_Lexorder"
    "HOL-Library.Multiset"
    "HOL-Library.Sublist"
begin

section \<open>Strings\<close>

text \<open>
  A Python string is modelled by the bytes of its UTF-8 encoding, a \<^typ>\<open>string\<close>:
  concatenation, equality and the substring test on strings are those on their encodings.

  \<open>upper\<close> is \<open>str.upper\<close> on strings of ASCII characters, where it turns \<open>a\<close> to \<open>z\<close> into
  \<open>A\<close> to \<open>Z\<close> and changes nothing else. On other strings \<open>str.upper\<close> is the case mapping of
  Unicode, which \<open>upper\<close> does not follow (it leaves every byte above 127 alone).
\<close>

definition upper_char :: "char \<Rightarrow> char" where
  "upper_char c =
     (let n = (of_char c :: nat)
      in if 97 \<le> n \<and> n \<le> 122 then char_of (n - 32) else c)"

definition upper :: "string \<Rightarrow> string" where
  "upper s = map upper_char s"



text \<open>\<open>sub in s\<close> on Python strings: \<open>sub\<close> occurs as a contiguous slice of \<open>s\<close>.\<close>

fun contains :: "string \<Rightarrow> string \<Rightarrow> bool" where
  "contains sub [] = (sub = [])"
| "contains sub (c # cs) = (prefix sub (c # cs) \<or> contains sub cs)"

text \<open>\<open>sep.join(lines)\<close>.\<close>

fun join :: "string \<Rightarrow> string list \<Rightarrow> string" where
  "join sep [] = []"
| "join sep [l] = l"
| "join sep (l # m # ls) = l @ sep @ join sep (m # ls)"

section \<open>The type normalizer: \<open>sql_type_to_diesel_type\<close>\<close>

text \<open>The dictionary \<open>type_mapping\<close> of the source, with all eleven entries.\<close>

definition type_mapping :: "string \<rightharpoonup> string" where
  "type_mapping =
     map_of
       [(''INTEGER'', ''Integer''),
        (''TEXT'', ''Text''),
        (''REAL'', ''Float''),
        (''FLOAT'', ''Float''),
        (''BOOLEAN'', ''Bool''),
        (''BOOL'', ''Bool''),
        (''DATE'', ''Date''),
        (''TIME'', ''Time''),
        (''DATETIME'', ''Timestamp''),
        (''TIMESTAMP'', ''Timestamp''),
        (''BLOB'', ''Binary'')]"

text \<open>
  The source function, with the library's \<open>str.upper\<close> of its line 25 as the parameter
  \<open>up\<close>: it is the only place where the case mapping enters.
\<close>

definition sql_type_to_diesel_type_with ::
    "(string \<Rightarrow> string) \<Rightarrow> string \<Rightarrow> bool \<Rightarrow> string" where
  "sql_type_to_diesel_type_with up sql_type is_nullable =
     (let u = up sql_type;
          diesel_type =
            (if contains ''INT'' u then ''Integer''
             else if contains ''CHAR'' u \<or> contains ''TEXT'' u then ''Text''
             else if contains ''REAL'' u \<or> contains ''FLOAT'' u \<or> contains ''DOUBLE'' u
               then ''Float''
             else if contains ''DATE'' u
               then (if contains ''TIME'' u then ''Timestamp'' else ''Date'')
             else (case type_mapping u of None \<Rightarrow> ''Text'' | Some d \<Rightarrow> d))
      in if is_nullable then ''Nullable<'' @ diesel_type @ ''>'' else diesel_type)"

text \<open>The source function on the declared types of ASCII characters.\<close>

definition sql_type_to_diesel_type :: "string \<Rightarrow> bool \<Rightarrow> string" where
  "sql_type_to_diesel_type sql_type is_nullable =
     sql_type_to_diesel_type_with upper sql_type is_nullable"

subsection \<open>The normalizer as the specification words it\<close>

text \<open>
  The closed vocabulary of abstract column types and its rendering; the fixed table, which
  has no entry for \<open>INTEGER\<close>; and the rule list, twice. \<open>rule_list\<close> reads a string as it
  stands: substring rules in priority order, then the table, then the default.
  \<open>normalize_spec\<close> is the same list matched without regard to letter case, where two
  characters match when they are equal or are the two cases of one letter; it is defined
  without any upper-casing.
\<close>

datatype abstract_column_type =
  Integer | Text | Float | Bool | Date | Time | Timestamp | Binary











section \<open>The catalog snapshot\<close>

text \<open>
  One row of \<open>PRAGMA table_info\<close>, with the names the source unpacks it into. SQLite
  reports the two flags as integers: \<open>notnull\<close> is 0 or 1, \<open>pk\<close> is 0 for a column outside
  the primary key and the 1-based position of the column within the key otherwise.
\<close>

record column =
  col_id :: int
  col_name :: string
  col_type :: string
  not_null :: int
  default_value :: "string option"
  is_pk :: int

text \<open>One row of \<open>PRAGMA foreign_key_list\<close>, with the names the source unpacks it into.\<close>

record foreign_key =
  fk_id :: int
  seq :: int
  referenced_table :: string
  from_col :: string
  to_col :: "string option"
  on_update :: string
  on_delete :: string
  fk_match :: string

text \<open>
  What the three queries of the source read: the rows \<open>(type, name)\<close> of
  \<open>sqlite_master\<close> in storage order, and the answers of the two pragmas for a table name.
\<close>

record database =
  sqlite_master :: "(string \<times> string) list"
  table_info :: "string \<Rightarrow> column list"
  foreign_key_list :: "string \<Rightarrow> foreign_key list"

text \<open>
  \<open>SELECT name FROM sqlite_master WHERE type='table' AND name != 'sqlite_sequence'
  ORDER BY name\<close>: the comparison of the default collation is bytewise and
  lexicographic, which is the order of \<^typ>\<open>string\<close>.
\<close>

definition select_tables :: "database \<Rightarrow> string list" where
  "select_tables db =
     sort (map snd
       (filter (\<lambda>row. fst row = ''table'' \<and> snd row \<noteq> ''sqlite_sequence'')
         (sqlite_master db)))"

section \<open>The schema emitter: \<open>generate_schema\<close>\<close>

text \<open>Truth value of a Python integer.\<close>

definition truthy :: "int \<Rightarrow> bool" where
  "truthy n = (n \<noteq> 0)"

text \<open>The search loop for the primary key: \<open>None\<close> when it ends without a \<open>break\<close>.\<close>

fun find_primary_key :: "column list \<Rightarrow> string option" where
  "find_primary_key [] = None"
| "find_primary_key (col # cols) =
     (if truthy (is_pk col) then Some (col_name col) else find_primary_key cols)"

text \<open>\<open>if not primary_key\<close> holds for \<open>None\<close> and for the empty string.\<close>

definition primary_key_of :: "column list \<Rightarrow> string" where
  "primary_key_of columns =
     (case find_primary_key columns of
        None \<Rightarrow> ''id''
      | Some k \<Rightarrow> if k = [] then ''id'' else k)"

definition column_line :: "column \<Rightarrow> string" where
  "column_line col =
     (let is_nullable = (\<not> truthy (not_null col) \<and> \<not> truthy (is_pk col));
          diesel_type = sql_type_to_diesel_type (col_type col) is_nullable
      in ''        '' @ col_name col @ '' -> '' @ diesel_type @ '','')"

definition joinable_line :: "string \<Rightarrow> foreign_key \<Rightarrow> string" where
  "joinable_line table_name fk =
     ''diesel::joinable!('' @ table_name @ '' -> '' @ referenced_table fk @
     '' ('' @ from_col fk @ ''));''"

text \<open>The two lists the loop over the tables appends to.\<close>

record gen_state =
  schema_lines :: "string list"
  joinable_lines :: "string list"

text \<open>One pass of the loop over the tables.\<close>

definition table_step :: "database \<Rightarrow> gen_state \<Rightarrow> string \<Rightarrow> gen_state" where
  "table_step db st table_name =
     (let columns = table_info db table_name;
          foreign_keys = foreign_key_list db table_name;
          primary_key = primary_key_of columns;
          l1 = schema_lines st @ [''diesel::table! {''];
          l2 = l1 @ [''    '' @ table_name @ '' ('' @ primary_key @ '') {''];
          l3 = foldl (\<lambda>acc col. acc @ [column_line col]) l2 columns;
          l4 = l3 @ [''    }''] @ [''}''] @ [''''];
          j = foldl
                (\<lambda>acc fk.
                   if referenced_table fk \<noteq> table_name
                   then acc @ [joinable_line table_name fk] else acc)
                (joinable_lines st) foreign_keys
      in \<lparr>schema_lines = l4, joinable_lines = j\<rparr>)"

definition header_lines :: "string list" where
  "header_lines = [''// @generated automatically by generate_schema.py'', '''']"

text \<open>The list \<open>schema_lines\<close> as it stands when the source joins it.\<close>

definition generate_lines :: "database \<Rightarrow> string list" where
  "generate_lines db =
     (let tables = select_tables db;
          st = foldl (table_step db)
                 \<lparr>schema_lines = header_lines, joinable_lines = []\<rparr> tables;
          l1 = (if joinable_lines st \<noteq> []
                then schema_lines st @ joinable_lines st @ ['''']
                else schema_lines st);
          l2 = l1 @ [''diesel::allow_tables_to_appear_in_same_query!(''];
          l3 = foldl (\<lambda>acc table_name. acc @ [''    '' @ table_name @ '','']) l2 tables
      in l3 @ ['');''])"

definition generate_schema :: "database \<Rightarrow> string" where
  "generate_schema db = join [CHR 0x0A] (generate_lines db)"

section \<open>The script\<close>

text \<open>
  A run of the script either leaves through \<open>sys.exit\<close> or its last line, with a status
  and what it printed on the two streams, or an exception of \<open>sqlite3\<close> leaves it
  uncaught. The databases that the paths lead to are a parameter: \<open>Inl\<close> where a call of
  \<open>sqlite3\<close> raises.
\<close>

datatype sqlite_error = SqliteError string

datatype outcome =
  Exit (status: int) (stdout: string) (stderr: string)
| Uncaught sqlite_error

definition usage_line :: string where
  "usage_line = ''Usage: python generate_schema.py <database_path>''"

definition main :: "(string \<Rightarrow> sqlite_error + database) \<Rightarrow> string list \<Rightarrow> outcome" where
  "main connect argv =
     (if length argv \<noteq> 2 then Exit 1 (usage_line @ [CHR 0x0A]) []
      else
        (case connect (argv ! 1) of
           Inl e \<Rightarrow> Uncaught e
         | Inr db \<Rightarrow> Exit 0 (generate_schema db @ [CHR 0x0A]) []))"

section \<open>The parts of the document\<close>

text \<open>
  The declaration block of a table, the relationship statements it contributes, the
  section they form, and the closing collection statement.
\<close>

definition table_block :: "database \<Rightarrow> string \<Rightarrow> string list" where
  "table_block db t =
     [''diesel::table! {'', ''    '' @ t @ '' ('' @ primary_key_of (table_info db t) @ '') {'']
     @ map column_line (table_info db t)
     @ [''    }'', ''}'', '''']"

definition table_joinables :: "database \<Rightarrow> string \<Rightarrow> string list" where
  "table_joinables db t =
     map (joinable_line t)
       (filter (\<lambda>fk. referenced_table fk \<noteq> t) (foreign_key_list db t))"

definition joinable_section :: "string list \<Rightarrow> string list" where
  "joinable_section js = (if js = [] then [] else js @ [''''])"

definition collection_statement :: "string list \<Rightarrow> string list" where
  "collection_statement ts =
     [''diesel::allow_tables_to_appear_in_same_query!('']
     @ map (\<lambda>t. ''    '' @ t @ '','') ts
     @ ['');'']"

text \<open>The line at which the block of the \<open>i\<close>-th table starts.\<close>

definition block_offset :: "database \<Rightarrow> nat \<Rightarrow> nat" where
  "block_offset db i =
     length header_lines + length (concat (map (table_block db) (take i (select_tables db))))"

text \<open>The names of the rows of \<open>sqlite_master\<close> that describe tables.\<close>

definition table_names :: "database \<Rightarrow> string list" where
  "table_names db = map snd (filter (\<lambda>row. fst row = ''table'') (sqlite_master db))"

text \<open>The closed vocabulary of the target notation, as the strings the source writes.\<close>

definition diesel_vocabulary :: "string list" where
  "diesel_vocabulary =
     [''Integer'', ''Text'', ''Float'', ''Bool'', ''Date'', ''Time'', ''Timestamp'', ''Binary'']"

section \<open>Example databases\<close>

text \<open>
  \<open>users(id INTEGER PRIMARY KEY, name TEXT NOT NULL, age INTEGER)\<close> and
  \<open>posts(id INTEGER PRIMARY KEY, user_id INTEGER REFERENCES users(id),
  parent INTEGER REFERENCES posts(id))\<close>, stored in that order, beside the housekeeping
  table and an index.
\<close>

definition mk_column :: "int \<Rightarrow> string \<Rightarrow> string \<Rightarrow> int \<Rightarrow> int \<Rightarrow> column" where
  "mk_column i n t nn pk =
     \<lparr>col_id = i, col_name = n, col_type = t, not_null = nn, default_value = None, is_pk = pk\<rparr>"

definition mk_foreign_key :: "int \<Rightarrow> string \<Rightarrow> string \<Rightarrow> foreign_key" where
  "mk_foreign_key i r f =
     \<lparr>fk_id = i, seq = 0, referenced_table = r, from_col = f, to_col = Some ''id'',
      on_update = ''NO ACTION'', on_delete = ''NO ACTION'', fk_match = ''NONE''\<rparr>"

definition example_db :: database where
  "example_db =
     \<lparr>sqlite_master =
        [(''table'', ''users''), (''table'', ''sqlite_sequence''),
         (''index'', ''idx_posts''), (''table'', ''posts'')],
      table_info =
        (\<lambda>t. if t = ''users''
               then [mk_column 0 ''id'' ''INTEGER'' 0 1,
                     mk_column 1 ''name'' ''TEXT'' 1 0,
                     mk_column 2 ''age'' ''INTEGER'' 0 0]
             else if t = ''posts''
               then [mk_column 0 ''id'' ''INTEGER'' 0 1,
                     mk_column 1 ''user_id'' ''INTEGER'' 0 0,
                     mk_column 2 ''parent'' ''INTEGER'' 0 0]
             else []),
      foreign_key_list =
        (\<lambda>t. if t = ''posts''
               then [mk_foreign_key 0 ''posts'' ''parent'', mk_foreign_key 1 ''users'' ''user_id'']
             else [])\<rparr>"

text \<open>The same database with the rows of \<open>sqlite_master\<close> stored in another order.\<close>

definition example_db_reordered :: database where
  "example_db_reordered =
     example_db
       \<lparr>sqlite_master :=
          [(''table'', ''posts''), (''index'', ''idx_posts''),
           (''table'', ''sqlite_sequence''), (''table'', ''users'')]\<rparr>"

text \<open>
  \<open>node(id INTEGER PRIMARY KEY, parent INTEGER REFERENCES node(id))\<close>: the only foreign
  key points back at its own table.
\<close>

definition self_reference_db :: database where
  "self_reference_db =
     \<lparr>sqlite_master = [(''table'', ''node'')],
      table_info =
        (\<lambda>t. if t = ''node''
               then [mk_column 0 ''id'' ''INTEGER'' 0 1, mk_column 1 ''parent'' ''INTEGER'' 0 0]
             else []),
      foreign_key_list =
        (\<lambda>t. if t = ''node'' then [mk_foreign_key 0 ''node'' ''parent''] else [])\<rparr>"

text \<open>
  \<open>CREATE TABLE Node (id INTEGER PRIMARY KEY, parent INTEGER REFERENCES node(id))\<close>:
  SQLite resolves table names without regard to the case of the ASCII letters, so the
  foreign key points back at its own table; the catalog reports the table under the name
  of its \<open>CREATE TABLE\<close> and the referenced table as the \<open>REFERENCES\<close> clause spells it.
\<close>

definition sqlite_same_table :: "string \<Rightarrow> string \<Rightarrow> bool" where
  "sqlite_same_table a b = (upper a = upper b)"

definition case_variant_db :: database where
  "case_variant_db =
     \<lparr>sqlite_master = [(''table'', ''Node'')],
      table_info =
        (\<lambda>t. if sqlite_same_table t ''Node''
               then [mk_column 0 ''id'' ''INTEGER'' 0 1, mk_column 1 ''parent'' ''INTEGER'' 0 0]
             else []),
      foreign_key_list =
        (\<lambda>t. if sqlite_same_table t ''Node''
               then [mk_foreign_key 0 ''node'' ''parent''] else [])\<rparr>"

text \<open>A table for which the catalog reports no column at all.\<close>

definition no_columns_db :: database where
  "no_columns_db =
     \<lparr>sqlite_master = [(''table'', ''t'')],
      table_info = (\<lambda>t. []),
      foreign_key_list = (\<lambda>t. [])\<rparr>"

text \<open>
  \<open>CREATE TABLE t ("" INTEGER PRIMARY KEY, b TEXT)\<close>: SQLite accepts the empty quoted
  identifier as a column name and reports it as the empty string.
\<close>

definition unnamed_key_db :: database where
  "unnamed_key_db =
     \<lparr>sqlite_master = [(''table'', ''t'')],
      table_info =
        (\<lambda>t. if t = ''t''
               then [mk_column 0 [] ''INTEGER'' 0 1, mk_column 1 ''b'' ''TEXT'' 0 0]
             else []),
      foreign_key_list = (\<lambda>t. [])\<rparr>"

section \<open>Facts about strings\<close>


lemma upper_char_idem: "upper_char (upper_char c) = upper_char c"
  by (auto simp: upper_char_def Let_def)

lemma upper_idem: "upper (upper s) = upper s"
  by (simp add: upper_def upper_char_idem)

lemma upper_INT: "upper ''INT'' = ''INT''"
  by code_simp

lemma upper_CHAR: "upper ''CHAR'' = ''CHAR''"
  by code_simp

lemma upper_TEXT: "upper ''TEXT'' = ''TEXT''"
  by code_simp

lemma upper_REAL: "upper ''REAL'' = ''REAL''"
  by code_simp

lemma upper_FLOAT: "upper ''FLOAT'' = ''FLOAT''"
  by code_simp

lemma upper_DOUBLE: "upper ''DOUBLE'' = ''DOUBLE''"
  by code_simp

lemma upper_DATE: "upper ''DATE'' = ''DATE''"
  by code_simp

lemma upper_TIME: "upper ''TIME'' = ''TIME''"
  by code_simp

lemmas upper_patterns =
  upper_INT upper_CHAR upper_TEXT upper_REAL upper_FLOAT upper_DOUBLE upper_DATE upper_TIME








section \<open>Matching without regard to letter case\<close>












section \<open>The normalizer follows the rule list\<close>



text \<open>
  Claim C10. The result does not depend on the letter case of the raw type string: the
  source upper-cases the string before any rule reads it, so a string and its upper-cased
  form get the same result, and the dictionary lookup of the last rule is reached with the
  upper-cased string too: \<open>boolean\<close> gives \<open>Bool\<close>, not the default \<open>Text\<close>.
\<close>

theorem sql_type_to_diesel_type_case_invariant:
  "sql_type_to_diesel_type s nullable = sql_type_to_diesel_type (upper s) nullable \<and>
   sql_type_to_diesel_type ''boolean'' False = ''Bool'' \<and>
   sql_type_to_diesel_type ''Blob'' True = ''Nullable<Binary>''"
proof -
  have "sql_type_to_diesel_type s nullable = sql_type_to_diesel_type (upper s) nullable"
    by (simp add: sql_type_to_diesel_type_def sql_type_to_diesel_type_with_def upper_idem)
  moreover have "sql_type_to_diesel_type ''boolean'' False = ''Bool''"
    by code_simp
  moreover have "sql_type_to_diesel_type ''Blob'' True = ''Nullable<Binary>''"
    by code_simp
  ultimately show ?thesis by blast
qed

section \<open>The normalizer is total over the vocabulary\<close>

lemma type_mapping_get_vocabulary:
  "(case type_mapping u of None \<Rightarrow> ''Text'' | Some d \<Rightarrow> d) \<in> set diesel_vocabulary"
  by (simp add: type_mapping_def diesel_vocabulary_def)

lemma sql_type_to_diesel_type_wrap:
  "sql_type_to_diesel_type s True = ''Nullable<'' @ sql_type_to_diesel_type s False @ ''>''"
  by (simp add: sql_type_to_diesel_type_def sql_type_to_diesel_type_with_def Let_def)

lemma sql_type_to_diesel_type_bare:
  "sql_type_to_diesel_type s False \<in> set diesel_vocabulary"
proof -
  have "sql_type_to_diesel_type s False \<in>
          {''Integer'', ''Text'', ''Float'', ''Timestamp'', ''Date'',
           (case type_mapping (upper s) of None \<Rightarrow> ''Text'' | Some d \<Rightarrow> d)}"
    by (simp add: sql_type_to_diesel_type_def sql_type_to_diesel_type_with_def Let_def)
  then show ?thesis
    using type_mapping_get_vocabulary [of "upper s"]
    by (auto simp: diesel_vocabulary_def)
qed

text \<open>
  Claim C7. The source function has no raising path: upper-casing, substring tests and
  \<open>dict.get\<close> with a default are defined on every string. For every string, the empty one
  and the unmatched ones included, and every flag, the result is one name of the fixed
  vocabulary, wrapped as \<open>Nullable<...>\<close> when the flag is set; and the table of the
  specification holds entry by entry.
\<close>

theorem sql_type_to_diesel_type_total:
  "(\<exists>t. t \<in> set diesel_vocabulary \<and>
        sql_type_to_diesel_type s nullable =
          (if nullable then ''Nullable<'' @ t @ ''>'' else t)) \<and>
   sql_type_to_diesel_type [] False = ''Text'' \<and>
   sql_type_to_diesel_type ''INT'' False = ''Integer'' \<and>
   sql_type_to_diesel_type ''VARCHAR(50)'' False = ''Text'' \<and>
   sql_type_to_diesel_type ''DOUBLE'' False = ''Float'' \<and>
   sql_type_to_diesel_type ''BOOLEAN'' False = ''Bool'' \<and>
   sql_type_to_diesel_type ''DATETIME'' False = ''Timestamp'' \<and>
   sql_type_to_diesel_type ''DATE'' False = ''Date'' \<and>
   sql_type_to_diesel_type ''BLOB'' False = ''Binary'' \<and>
   sql_type_to_diesel_type ''FOOBAR'' False = ''Text''"
proof -
  have general:
    "\<exists>t. t \<in> set diesel_vocabulary \<and>
        sql_type_to_diesel_type s nullable =
          (if nullable then ''Nullable<'' @ t @ ''>'' else t)"
  proof (intro exI conjI)
    show "sql_type_to_diesel_type s False \<in> set diesel_vocabulary"
      by (rule sql_type_to_diesel_type_bare)
    show "sql_type_to_diesel_type s nullable =
            (if nullable then ''Nullable<'' @ sql_type_to_diesel_type s False @ ''>''
             else sql_type_to_diesel_type s False)"
      using sql_type_to_diesel_type_wrap [of s] by (cases nullable) simp_all
  qed
  have e0: "sql_type_to_diesel_type [] False = ''Text''" by code_simp
  have e1: "sql_type_to_diesel_type ''INT'' False = ''Integer''" by code_simp
  have e2: "sql_type_to_diesel_type ''VARCHAR(50)'' False = ''Text''" by code_simp
  have e3: "sql_type_to_diesel_type ''DOUBLE'' False = ''Float''" by code_simp
  have e4: "sql_type_to_diesel_type ''BOOLEAN'' False = ''Bool''" by code_simp
  have e5: "sql_type_to_diesel_type ''DATETIME'' False = ''Timestamp''" by code_simp
  have e6: "sql_type_to_diesel_type ''DATE'' False = ''Date''" by code_simp
  have e7: "sql_type_to_diesel_type ''BLOB'' False = ''Binary''" by code_simp
  have e8: "sql_type_to_diesel_type ''FOOBAR'' False = ''Text''" by code_simp
  from general e0 e1 e2 e3 e4 e5 e6 e7 e8 show ?thesis by blast
qed

section \<open>Column lines\<close>

lemma column_line_eq:
  "column_line col =
     ''        '' @ col_name col @ '' -> '' @
     sql_type_to_diesel_type (col_type col) (\<not> truthy (not_null col) \<and> \<not> truthy (is_pk col))
     @ '',''"
  by (simp add: column_line_def Let_def)

text \<open>
  Claim C2. The flag that a column hands to the normalizer is
  \<open>not not_null and not is_pk\<close>. A primary-key column is therefore rendered with the bare
  type name whatever its not-null flag says, so is a not-null column, and a column with
  neither flag set is rendered as \<open>Nullable<...>\<close> of that bare type name.
\<close>

theorem column_nullability:
  "column_line col =
     ''        '' @ col_name col @ '' -> '' @
     sql_type_to_diesel_type (col_type col) (\<not> truthy (not_null col) \<and> \<not> truthy (is_pk col))
     @ '','' \<and>
   (truthy (is_pk col) \<longrightarrow>
      column_line col =
        ''        '' @ col_name col @ '' -> '' @
        sql_type_to_diesel_type (col_type col) False @ '','') \<and>
   (truthy (not_null col) \<longrightarrow>
      column_line col =
        ''        '' @ col_name col @ '' -> '' @
        sql_type_to_diesel_type (col_type col) False @ '','') \<and>
   (\<not> truthy (not_null col) \<and> \<not> truthy (is_pk col) \<longrightarrow>
      column_line col =
        ''        '' @ col_name col @ '' -> Nullable<'' @
        sql_type_to_diesel_type (col_type col) False @ ''>,'') \<and>
   sql_type_to_diesel_type (col_type col) False \<in> set diesel_vocabulary"
proof (intro conjI impI)
  show "column_line col =
     ''        '' @ col_name col @ '' -> '' @
     sql_type_to_diesel_type (col_type col) (\<not> truthy (not_null col) \<and> \<not> truthy (is_pk col))
     @ '',''"
    by (rule column_line_eq)
next
  assume "truthy (is_pk col)"
  then show "column_line col =
        ''        '' @ col_name col @ '' -> '' @
        sql_type_to_diesel_type (col_type col) False @ '',''"
    by (simp add: column_line_eq)
next
  assume "truthy (not_null col)"
  then show "column_line col =
        ''        '' @ col_name col @ '' -> '' @
        sql_type_to_diesel_type (col_type col) False @ '',''"
    by (simp add: column_line_eq)
next
  assume "\<not> truthy (not_null col) \<and> \<not> truthy (is_pk col)"
  then show "column_line col =
        ''        '' @ col_name col @ '' -> Nullable<'' @
        sql_type_to_diesel_type (col_type col) False @ ''>,''"
    by (simp add: column_line_eq sql_type_to_diesel_type_wrap)
next
  show "sql_type_to_diesel_type (col_type col) False \<in> set diesel_vocabulary"
    by (rule sql_type_to_diesel_type_bare)
qed

theorem column_nullability_witness:
  "column_line (mk_column 1 ''bio'' ''TEXT'' 0 0) = ''        bio -> Nullable<Text>,'' \<and>
   column_line (mk_column 0 ''id'' ''INTEGER'' 0 1) = ''        id -> Integer,'' \<and>
   column_line (mk_column 2 ''name'' ''TEXT'' 1 0) = ''        name -> Text,''"
proof -
  have t: "sql_type_to_diesel_type ''TEXT'' False = ''Text''"
    by code_simp
  have i: "sql_type_to_diesel_type ''INTEGER'' False = ''Integer''"
    by code_simp
  have n: "sql_type_to_diesel_type ''TEXT'' True = ''Nullable<Text>''"
    by code_simp
  show ?thesis
    using column_nullability [of "mk_column 1 ''bio'' ''TEXT'' 0 0"]
      column_nullability [of "mk_column 0 ''id'' ''INTEGER'' 0 1"]
      column_nullability [of "mk_column 2 ''name'' ''TEXT'' 1 0"]
    by (simp add: mk_column_def truthy_def t i n)
qed

section \<open>The loops of the emitter\<close>

lemma foldl_append_each: "foldl (\<lambda>acc x. acc @ [f x]) a xs = a @ map f xs"
  by (induction xs arbitrary: a) simp_all

lemma foldl_append_when:
  "foldl (\<lambda>acc x. if P x then acc @ [f x] else acc) a xs = a @ map f (filter P xs)"
  by (induction xs arbitrary: a) simp_all

lemma table_step_parts:
  "table_step db st t =
     \<lparr>schema_lines = schema_lines st @ table_block db t,
      joinable_lines = joinable_lines st @ table_joinables db t\<rparr>"
  by (simp add: table_step_def table_block_def table_joinables_def Let_def
      foldl_append_each foldl_append_when)

lemma foldl_table_step:
  "foldl (table_step db) st ts =
     \<lparr>schema_lines = schema_lines st @ concat (map (table_block db) ts),
      joinable_lines = joinable_lines st @ concat (map (table_joinables db) ts)\<rparr>"
proof (induction ts arbitrary: st)
  case Nil
  show ?case by simp
next
  case (Cons t ts)
  have "foldl (table_step db) st (t # ts) = foldl (table_step db) (table_step db st t) ts"
    by simp
  also have "\<dots> =
     \<lparr>schema_lines = schema_lines (table_step db st t) @ concat (map (table_block db) ts),
      joinable_lines =
        joinable_lines (table_step db st t) @ concat (map (table_joinables db) ts)\<rparr>"
    by (rule Cons.IH)
  also have "\<dots> =
     \<lparr>schema_lines = schema_lines st @ concat (map (table_block db) (t # ts)),
      joinable_lines = joinable_lines st @ concat (map (table_joinables db) (t # ts))\<rparr>"
    by (simp add: table_step_parts [of db st t])
  finally show ?case .
qed

text \<open>The document is the header, the blocks, the relationship section and the collection
  statement, in this order.\<close>

lemma generate_lines_parts:
  "generate_lines db =
     header_lines
     @ concat (map (table_block db) (select_tables db))
     @ joinable_section (concat (map (table_joinables db) (select_tables db)))
     @ collection_statement (select_tables db)"
  by (simp add: generate_lines_def Let_def foldl_table_step foldl_append_each
      joinable_section_def collection_statement_def)

section \<open>Relationship statements\<close>

text \<open>
  What the source does: after all the table blocks the document has the relationship
  section; for each table in table order it holds one statement for each of the table's
  foreign keys, in the order the catalog lists them, whose referenced table name is
  another string than the table's own name, and none for a foreign key whose referenced
  table name is the same string; one empty line follows the statements exactly when there
  is at least one statement.
\<close>

lemma relationship_section:
  "generate_lines db =
     header_lines
     @ concat (map (table_block db) (select_tables db))
     @ joinable_section (concat (map (table_joinables db) (select_tables db)))
     @ collection_statement (select_tables db) \<and>
   table_joinables db t =
     map (joinable_line t)
       (filter (\<lambda>fk. referenced_table fk \<noteq> t) (foreign_key_list db t)) \<and>
   ((\<forall>fk \<in> set (foreign_key_list db t). referenced_table fk = t) \<longrightarrow>
      table_joinables db t = []) \<and>
   joinable_section [] = [] \<and>
   (js \<noteq> [] \<longrightarrow> joinable_section js = js @ [[]])"
proof (intro conjI impI)
  show "generate_lines db =
     header_lines
     @ concat (map (table_block db) (select_tables db))
     @ joinable_section (concat (map (table_joinables db) (select_tables db)))
     @ collection_statement (select_tables db)"
    by (rule generate_lines_parts)
next
  show "table_joinables db t =
     map (joinable_line t)
       (filter (\<lambda>fk. referenced_table fk \<noteq> t) (foreign_key_list db t))"
    by (simp add: table_joinables_def)
next
  assume "\<forall>fk \<in> set (foreign_key_list db t). referenced_table fk = t"
  then have "filter (\<lambda>fk. referenced_table fk \<noteq> t) (foreign_key_list db t) = []"
    by (simp add: filter_empty_conv)
  then show "table_joinables db t = []"
    by (simp add: table_joinables_def)
next
  show "joinable_section [] = []"
    by (simp add: joinable_section_def)
next
  assume "js \<noteq> []"
  then show "joinable_section js = js @ [[]]"
    by (simp add: joinable_section_def)
qed

text \<open>
  Claim C3. No statement should be emitted for a self-referencing foreign key. The source
  means this (\<open># Avoid self-references for now\<close>) and tests it by comparing the two names as
  Python strings. That leaves out a foreign key that is spelled in the same letters as its
  own table: \<open>self_reference_db\<close> gets no statement. But SQLite resolves table names
  without regard to letter case and reports the referenced table as the \<open>REFERENCES\<close>
  clause spells it: on \<open>case_variant_db\<close> the foreign key of \<open>Node\<close> points back at \<open>Node\<close>,
  the catalog reports it as \<open>node\<close>, the two strings differ, and the source emits a
  relationship statement from the table to itself.
\<close>

theorem case_variant_self_reference_emitted:
  "select_tables case_variant_db = [''Node''] \<and>
   foreign_key_list case_variant_db ''Node'' = [mk_foreign_key 0 ''node'' ''parent''] \<and>
   sqlite_same_table ''node'' ''Node'' \<and>
   table_joinables case_variant_db ''Node'' = [''diesel::joinable!(Node -> node (parent));''] \<and>
   generate_lines case_variant_db =
     [''// @generated automatically by generate_schema.py'', [],
      ''diesel::table! {'', ''    Node (id) {'', ''        id -> Integer,'',
      ''        parent -> Nullable<Integer>,'', ''    }'', ''}'', [],
      ''diesel::joinable!(Node -> node (parent));'', [],
      ''diesel::allow_tables_to_appear_in_same_query!('', ''    Node,'', '');''] \<and>
   table_joinables self_reference_db ''node'' = []"
proof -
  have tables: "select_tables case_variant_db = [''Node'']"
    by code_simp
  have fks: "foreign_key_list case_variant_db ''Node'' = [mk_foreign_key 0 ''node'' ''parent'']"
    by code_simp
  have same: "sqlite_same_table ''node'' ''Node''"
    by code_simp
  have joins: "table_joinables case_variant_db ''Node'' =
      [''diesel::joinable!(Node -> node (parent));'']"
    by code_simp
  have doc: "generate_lines case_variant_db =
     [''// @generated automatically by generate_schema.py'', [],
      ''diesel::table! {'', ''    Node (id) {'', ''        id -> Integer,'',
      ''        parent -> Nullable<Integer>,'', ''    }'', ''}'', [],
      ''diesel::joinable!(Node -> node (parent));'', [],
      ''diesel::allow_tables_to_appear_in_same_query!('', ''    Node,'', '');'']"
    by code_simp
  have none: "table_joinables self_reference_db ''node'' = []"
    by code_simp
  from tables fks same joins doc none show ?thesis by blast
qed

section \<open>Determinism\<close>

lemma sort_mset_cong:
  fixes xs ys :: "'a::linorder list"
  assumes "mset xs = mset ys"
  shows "sort xs = sort ys"
  by (rule properties_for_sort) (simp_all add: assms)

lemma select_tables_mset_cong:
  assumes "mset (sqlite_master db1) = mset (sqlite_master db2)"
  shows "select_tables db1 = select_tables db2"
proof -
  have "mset (filter P (sqlite_master db1)) = mset (filter P (sqlite_master db2))" for P
    using assms by (metis mset_filter)
  then have "mset (map snd (filter P (sqlite_master db1))) =
             mset (map snd (filter P (sqlite_master db2)))" for P
    by (metis mset_map)
  then show ?thesis
    unfolding select_tables_def by (rule sort_mset_cong)
qed

lemma table_block_cong:
  "table_info db1 = table_info db2 \<Longrightarrow> table_block db1 = table_block db2"
  by (auto simp: table_block_def fun_eq_iff)

lemma table_joinables_cong:
  "foreign_key_list db1 = foreign_key_list db2 \<Longrightarrow> table_joinables db1 = table_joinables db2"
  by (auto simp: table_joinables_def fun_eq_iff)

text \<open>
  Claim C6. The text is a function of the metadata alone. No step of the source walks a
  set or a dictionary: the tables come sorted by name from the query and the columns and
  foreign keys are walked as the lists the catalog returns. Two snapshots that hold the
  same rows of \<open>sqlite_master\<close>, in whatever storage order, and give the same answers to
  the two pragmas produce the same text, byte for byte.
\<close>

theorem generate_schema_deterministic:
  assumes "mset (sqlite_master db1) = mset (sqlite_master db2)"
    and "table_info db1 = table_info db2"
    and "foreign_key_list db1 = foreign_key_list db2"
  shows "generate_schema db1 = generate_schema db2"
  by (simp add: generate_schema_def generate_lines_parts
      select_tables_mset_cong [OF assms(1)] table_block_cong [OF assms(2)]
      table_joinables_cong [OF assms(3)])

theorem generate_schema_deterministic_witness:
  "mset (sqlite_master example_db) = mset (sqlite_master example_db_reordered) \<and>
   sqlite_master example_db \<noteq> sqlite_master example_db_reordered \<and>
   generate_schema example_db = generate_schema example_db_reordered"
proof -
  have rows: "mset (sqlite_master example_db) = mset (sqlite_master example_db_reordered)"
    by (simp add: example_db_def example_db_reordered_def)
  have differ: "sqlite_master example_db \<noteq> sqlite_master example_db_reordered"
    by (simp add: example_db_def example_db_reordered_def)
  have cols: "table_info example_db = table_info example_db_reordered"
    by (simp add: example_db_reordered_def)
  have fks: "foreign_key_list example_db = foreign_key_list example_db_reordered"
    by (simp add: example_db_reordered_def)
  from rows differ generate_schema_deterministic [OF rows cols fks] show ?thesis
    by blast
qed

section \<open>The order of the tables\<close>

lemma sorted_select_tables: "sorted (select_tables db)"
  by (simp add: select_tables_def)

lemma set_select_tables:
  "set (select_tables db) =
     {n. (''table'', n) \<in> set (sqlite_master db) \<and> n \<noteq> ''sqlite_sequence''}"
  by (auto simp: select_tables_def image_iff)

lemma distinct_select_tables:
  assumes "distinct (table_names db)"
  shows "distinct (select_tables db)"
proof -
  have "filter (\<lambda>row. fst row = ''table'' \<and> snd row \<noteq> ''sqlite_sequence'') (sqlite_master db) =
        filter (\<lambda>row. snd row \<noteq> ''sqlite_sequence'')
          (filter (\<lambda>row. fst row = ''table'') (sqlite_master db))"
    by (simp add: conj_commute)
  then have
    "map snd
       (filter (\<lambda>row. fst row = ''table'' \<and> snd row \<noteq> ''sqlite_sequence'') (sqlite_master db)) =
     filter (\<lambda>n. n \<noteq> ''sqlite_sequence'') (table_names db)"
    by (simp add: table_names_def filter_map comp_def)
  then show ?thesis
    using assms by (simp add: select_tables_def)
qed

lemma sorted_distinct_nth_less_iff:
  fixes xs :: "'a::linorder list"
  assumes "sorted xs" "distinct xs" "i < length xs" "j < length xs"
  shows "i < j \<longleftrightarrow> xs ! i < xs ! j"
proof
  assume "i < j"
  have "sorted_wrt (<) xs"
    using assms(1,2) by (simp add: strict_sorted_iff)
  then show "xs ! i < xs ! j"
    using \<open>i < j\<close> assms(4) by (rule sorted_wrt_nth_less)
next
  assume less: "xs ! i < xs ! j"
  show "i < j"
  proof (rule ccontr)
    assume "\<not> i < j"
    then have "j \<le> i" by simp
    then have "xs ! j \<le> xs ! i"
      using assms(1,3) by (simp add: sorted_nth_mono)
    with less show False by simp
  qed
qed

lemma table_block_length: "0 < length (table_block db t)"
  by (simp add: table_block_def)

lemma concat_blocks_nonempty:
  assumes "ts \<noteq> []"
  shows "0 < length (concat (map (table_block db) ts))"
  using assms table_block_length [of db "hd ts"] by (cases ts) simp_all

lemma block_offset_less:
  assumes "i < j" "j \<le> length (select_tables db)"
  shows "block_offset db i < block_offset db j"
proof -
  let ?ts = "select_tables db"
  have j: "j = i + (j - i)"
    using assms(1) by simp
  have "take j ?ts = take i ?ts @ take (j - i) (drop i ?ts)"
    by (subst j) (simp only: take_add)
  moreover have "take (j - i) (drop i ?ts) \<noteq> []"
    using assms by simp
  ultimately show ?thesis
    using concat_blocks_nonempty [of "take (j - i) (drop i ?ts)" db]
    by (simp add: block_offset_def)
qed

lemma block_offset_less_iff:
  assumes "i < length (select_tables db)" "j < length (select_tables db)"
  shows "block_offset db i < block_offset db j \<longleftrightarrow> i < j"
proof
  assume "i < j"
  then show "block_offset db i < block_offset db j"
    using assms(2) by (simp add: block_offset_less)
next
  assume less: "block_offset db i < block_offset db j"
  show "i < j"
  proof (rule ccontr)
    assume "\<not> i < j"
    then consider "j < i" | "j = i" by linarith
    then show False
    proof cases
      case 1
      then have "block_offset db j < block_offset db i"
        using assms(1) by (simp add: block_offset_less)
      with less show False by simp
    next
      case 2
      with less show False by simp
    qed
  qed
qed

lemma block_at_offset:
  assumes "i < length (select_tables db)"
  shows "take (length (table_block db (select_tables db ! i)))
           (drop (block_offset db i) (generate_lines db)) =
         table_block db (select_tables db ! i)"
proof -
  let ?ts = "select_tables db"
  have "?ts = take i ?ts @ ?ts ! i # drop (Suc i) ?ts"
    using assms by (rule id_take_nth_drop)
  then have "concat (map (table_block db) ?ts) =
      concat (map (table_block db) (take i ?ts)) @ table_block db (?ts ! i)
      @ concat (map (table_block db) (drop (Suc i) ?ts))"
    by (metis concat.simps(2) concat_append list.simps(9) map_append)
  then show ?thesis
    by (simp add: generate_lines_parts block_offset_def)
qed

text \<open>
  Claim C4. Table names are unique in a database. Then the tables the query returns are
  the user tables of the catalog in strictly increasing name order; the block of the
  \<open>i\<close>-th of them stands in the document at line \<open>block_offset db i\<close>; the block of one
  table starts before the block of another exactly when its name is the smaller one; and
  the document ends with the collection statement, which lists the same names in the same
  order, one per line, between its opening line and the closing marker.
\<close>

theorem tables_in_name_order:
  assumes "distinct (table_names db)"
  shows
    "sorted (select_tables db) \<and> distinct (select_tables db) \<and>
     set (select_tables db) =
       {n. (''table'', n) \<in> set (sqlite_master db) \<and> n \<noteq> ''sqlite_sequence''} \<and>
     (\<forall>i j. i < length (select_tables db) \<and> j < length (select_tables db) \<longrightarrow>
        take (length (table_block db (select_tables db ! i)))
          (drop (block_offset db i) (generate_lines db)) =
          table_block db (select_tables db ! i) \<and>
        (block_offset db i < block_offset db j \<longleftrightarrow>
           select_tables db ! i < select_tables db ! j)) \<and>
     generate_lines db =
       header_lines
       @ concat (map (table_block db) (select_tables db))
       @ joinable_section (concat (map (table_joinables db) (select_tables db)))
       @ [''diesel::allow_tables_to_appear_in_same_query!('']
       @ map (\<lambda>t. ''    '' @ t @ '','') (select_tables db)
       @ ['');'']"
proof (intro conjI allI impI)
  show "sorted (select_tables db)"
    by (rule sorted_select_tables)
next
  show "distinct (select_tables db)"
    using assms by (rule distinct_select_tables)
next
  show "set (select_tables db) =
       {n. (''table'', n) \<in> set (sqlite_master db) \<and> n \<noteq> ''sqlite_sequence''}"
    by (rule set_select_tables)
next
  fix i j
  assume "i < length (select_tables db) \<and> j < length (select_tables db)"
  then show "take (length (table_block db (select_tables db ! i)))
          (drop (block_offset db i) (generate_lines db)) =
          table_block db (select_tables db ! i)"
    by (simp add: block_at_offset)
next
  fix i j
  assume ij: "i < length (select_tables db) \<and> j < length (select_tables db)"
  then have "block_offset db i < block_offset db j \<longleftrightarrow> i < j"
    by (simp add: block_offset_less_iff)
  also have "i < j \<longleftrightarrow> select_tables db ! i < select_tables db ! j"
    using sorted_select_tables distinct_select_tables [OF assms] ij
    by (intro sorted_distinct_nth_less_iff) simp_all
  finally show "block_offset db i < block_offset db j \<longleftrightarrow>
      select_tables db ! i < select_tables db ! j" .
next
  show "generate_lines db =
       header_lines
       @ concat (map (table_block db) (select_tables db))
       @ joinable_section (concat (map (table_joinables db) (select_tables db)))
       @ [''diesel::allow_tables_to_appear_in_same_query!('']
       @ map (\<lambda>t. ''    '' @ t @ '','') (select_tables db)
       @ ['');'']"
    using generate_lines_parts [of db] by (simp add: collection_statement_def)
qed

theorem tables_in_name_order_witness:
  "distinct (table_names example_db) \<and>
   select_tables example_db = [''posts'', ''users''] \<and>
   block_offset example_db 0 < block_offset example_db 1 \<and>
   take 8 (drop (block_offset example_db 0) (generate_lines example_db)) =
     table_block example_db ''posts''"
proof -
  have names: "distinct (table_names example_db)"
    by code_simp
  have tables: "select_tables example_db = [''posts'', ''users'']"
    by code_simp
  have less: "''posts'' < ''users''"
    by code_simp
  have len: "length (table_block example_db ''posts'') = 8"
    by code_simp
  note order = tables_in_name_order [OF names]
  have both: "(0::nat) < length (select_tables example_db) \<and> 1 < length (select_tables example_db)"
    by (simp add: tables)
  have "block_offset example_db 0 < block_offset example_db 1 \<longleftrightarrow>
      select_tables example_db ! 0 < select_tables example_db ! 1"
    using order both by blast
  then have before: "block_offset example_db 0 < block_offset example_db 1"
    by (simp add: tables less)
  have "take (length (table_block example_db (select_tables example_db ! 0)))
      (drop (block_offset example_db 0) (generate_lines example_db)) =
      table_block example_db (select_tables example_db ! 0)"
    using order both by blast
  then have block: "take 8 (drop (block_offset example_db 0) (generate_lines example_db)) =
      table_block example_db ''posts''"
    by (simp add: tables len)
  from names tables before block show ?thesis by blast
qed

section \<open>The primary-key identifier\<close>

lemma find_primary_key_filter:
  "find_primary_key cols =
     (case filter (\<lambda>c. truthy (is_pk c)) cols of
        [] \<Rightarrow> None
      | c # cs \<Rightarrow> Some (col_name c))"
  by (induction cols) simp_all

text \<open>With no flagged column the identifier is the fallback.\<close>

lemma primary_key_of_fallback:
  assumes "\<forall>c \<in> set cols. \<not> truthy (is_pk c)"
  shows "primary_key_of cols = ''id''"
proof -
  have "filter (\<lambda>c. truthy (is_pk c)) cols = []"
    using assms by (simp add: filter_empty_conv)
  then show ?thesis
    by (simp add: primary_key_of_def find_primary_key_filter)
qed

text \<open>The first flagged column gives the identifier when its name is not empty.\<close>

lemma primary_key_of_first_flagged:
  assumes "filter (\<lambda>c. truthy (is_pk c)) cols = c # cs" and "col_name c \<noteq> []"
  shows "primary_key_of cols = col_name c"
  using assms by (simp add: primary_key_of_def find_primary_key_filter)

text \<open>When its name is empty the truth test of the source takes it for \<open>None\<close>.\<close>

lemma primary_key_of_first_flagged_unnamed:
  assumes "filter (\<lambda>c. truthy (is_pk c)) cols = c # cs" and "col_name c = []"
  shows "primary_key_of cols = ''id''"
  using assms by (simp add: primary_key_of_def find_primary_key_filter)

text \<open>
  Claim C5. The block-opening line should name the first column whose primary-key flag
  is set, and the fallback \<open>id\<close> only when no column is flagged. The search loop of the
  source finds the first flagged column, but the test \<open>if not primary_key\<close> that follows
  it is also true of an empty name: on the table
  \<open>CREATE TABLE t ("" INTEGER PRIMARY KEY, b TEXT)\<close> the loop finds the flagged column,
  whose name is the empty string, and the block-opening line names \<open>id\<close>, which is no
  column of the table.
\<close>

theorem unnamed_key_replaced_by_fallback:
  "table_info unnamed_key_db ''t'' =
     [mk_column 0 [] ''INTEGER'' 0 1, mk_column 1 ''b'' ''TEXT'' 0 0] \<and>
   find_primary_key (table_info unnamed_key_db ''t'') = Some [] \<and>
   primary_key_of (table_info unnamed_key_db ''t'') = ''id'' \<and>
   generate_lines unnamed_key_db =
     [''// @generated automatically by generate_schema.py'', [],
      ''diesel::table! {'', ''    t (id) {'', ''         -> Integer,'',
      ''        b -> Nullable<Text>,'', ''    }'', ''}'', [],
      ''diesel::allow_tables_to_appear_in_same_query!('', ''    t,'', '');'']"
proof -
  have cols: "table_info unnamed_key_db ''t'' =
     [mk_column 0 [] ''INTEGER'' 0 1, mk_column 1 ''b'' ''TEXT'' 0 0]"
    by (simp add: unnamed_key_db_def)
  have found: "find_primary_key (table_info unnamed_key_db ''t'') = Some []"
    by (simp add: cols mk_column_def truthy_def)
  have key: "primary_key_of (table_info unnamed_key_db ''t'') = ''id''"
    by (simp add: primary_key_of_def found)
  have doc: "generate_lines unnamed_key_db =
     [''// @generated automatically by generate_schema.py'', [],
      ''diesel::table! {'', ''    t (id) {'', ''         -> Integer,'',
      ''        b -> Nullable<Text>,'', ''    }'', ''}'', [],
      ''diesel::allow_tables_to_appear_in_same_query!('', ''    t,'', '');'']"
    by code_simp
  from cols found key doc show ?thesis by blast
qed

section \<open>The emitter on defective tables\<close>

text \<open>
  Claim C8. String assembly has no raising path on the rows of the catalog: the emitter
  appends to lists and formats strings. Every snapshot yields the document, laid out as
  header, blocks, relationship section and collection statement and joined with newlines;
  and a table for which the catalog reports no column yields the two block-opening lines
  with the fallback identifier, no column line, the two block-closing lines and the blank
  separator.
\<close>

theorem emitter_total:
  "generate_lines db =
     header_lines
     @ concat (map (table_block db) (select_tables db))
     @ joinable_section (concat (map (table_joinables db) (select_tables db)))
     @ collection_statement (select_tables db) \<and>
   generate_schema db = join [CHR 0x0A] (generate_lines db) \<and>
   (table_info db t = [] \<longrightarrow>
      table_block db t =
        [''diesel::table! {'', ''    '' @ t @ '' (id) {'', ''    }'', ''}'', []])"
proof (intro conjI impI)
  show "generate_lines db =
     header_lines
     @ concat (map (table_block db) (select_tables db))
     @ joinable_section (concat (map (table_joinables db) (select_tables db)))
     @ collection_statement (select_tables db)"
    by (rule generate_lines_parts)
next
  show "generate_schema db = join [CHR 0x0A] (generate_lines db)"
    by (simp add: generate_schema_def)
next
  assume "table_info db t = []"
  then show "table_block db t =
        [''diesel::table! {'', ''    '' @ t @ '' (id) {'', ''    }'', ''}'', []]"
    by (simp add: table_block_def primary_key_of_def)
qed

theorem emitter_total_witness:
  "table_info no_columns_db ''t'' = [] \<and>
   table_block no_columns_db ''t'' =
     [''diesel::table! {'', ''    t (id) {'', ''    }'', ''}'', []] \<and>
   generate_lines no_columns_db =
     [''// @generated automatically by generate_schema.py'', [],
      ''diesel::table! {'', ''    t (id) {'', ''    }'', ''}'', [],
      ''diesel::allow_tables_to_appear_in_same_query!('', ''    t,'', '');'']"
proof -
  have cols: "table_info no_columns_db ''t'' = []"
    by (simp add: no_columns_db_def)
  have block: "table_block no_columns_db ''t'' =
     [''diesel::table! {'', ''    t (id) {'', ''    }'', ''}'', []]"
    using emitter_total [of no_columns_db "''t''"] cols by simp
  have tables: "select_tables no_columns_db = [''t'']"
    by code_simp
  have joins: "table_joinables no_columns_db ''t'' = []"
    by (simp add: table_joinables_def no_columns_db_def)
  have doc: "generate_lines no_columns_db =
     [''// @generated automatically by generate_schema.py'', [],
      ''diesel::table! {'', ''    t (id) {'', ''    }'', ''}'', [],
      ''diesel::allow_tables_to_appear_in_same_query!('', ''    t,'', '');'']"
    using emitter_total [of no_columns_db "''t''"]
    by (simp add: tables block joins header_lines_def joinable_section_def
        collection_statement_def)
  from cols block doc show ?thesis by blast
qed

section \<open>The exit status and the streams\<close>

text \<open>
  Claim C9, as stated, has the usage message on the diagnostic stream. The source prints it
  with a plain \<open>print\<close>, which writes to standard output, and writes nothing to the
  diagnostic stream: a run with no argument ends with status 1, the usage line on standard
  output and an empty diagnostic stream.
\<close>

theorem usage_written_to_standard_output:
  "main (\<lambda>path. Inr example_db) [''generate_schema.py''] =
     Exit 1 (''Usage: python generate_schema.py <database_path>'' @ [CHR 0x0A]) [] \<and>
   stderr (main (\<lambda>path. Inr example_db) [''generate_schema.py'']) = []"
  by (simp add: main_def usage_line_def)

text \<open>
  Claim C9, amended. With any number of command-line words other than the script name and
  one path, the run ends with status 1, the usage line alone on standard output, so no
  schema text, and nothing on the diagnostic stream. With exactly one path whose database
  the queries can read, the run ends with status 0 after printing the whole document on
  standard output.
\<close>

theorem main_outcome:
  "(length argv \<noteq> 2 \<longrightarrow>
      main connect argv = Exit 1 (usage_line @ [CHR 0x0A]) []) \<and>
   (length argv = 2 \<and> connect (argv ! 1) = Inr db \<longrightarrow>
      main connect argv = Exit 0 (generate_schema db @ [CHR 0x0A]) [])"
  by (simp add: main_def)

theorem main_outcome_witness:
  "main (\<lambda>path. Inr example_db) [''generate_schema.py'', ''a.db'', ''b.db''] =
     Exit 1 (usage_line @ [CHR 0x0A]) [] \<and>
   main (\<lambda>path. Inr example_db) [''generate_schema.py'', ''a.db''] =
     Exit 0 (generate_schema example_db @ [CHR 0x0A]) []"
proof -
  have "main (\<lambda>path. Inr example_db) [''generate_schema.py'', ''a.db'', ''b.db''] =
     Exit 1 (usage_line @ [CHR 0x0A]) []"
    using main_outcome
      [of "[''generate_schema.py'', ''a.db'', ''b.db'']" "\<lambda>path. Inr example_db" example_db]
    by simp
  moreover have "main (\<lambda>path. Inr example_db) [''generate_schema.py'', ''a.db''] =
     Exit 0 (generate_schema example_db @ [CHR 0x0A]) []"
    using main_outcome
      [of "[''generate_schema.py'', ''a.db'']" "\<lambda>path. Inr example_db" example_db]
    by simp
  ultimately show ?thesis by blast
qed

end
